theory Spec2Isabelle
  imports Main "HOL-Library.AList" "HOL-Library.Sublist"
begin

section \<open>The Sphinx configuration module \<open>conf.py\<close>\<close>

text \<open>
  \<open>src/conf.py\<close> is a Python module made of eighteen top-level assignment statements.
  Every right-hand side is a literal: a string, a list display of strings, or (for
  \<open>intersphinx_mapping\<close>) a dict display whose single key is a string and whose value
  is a tuple holding a string and \<open>None\<close>. The module imports nothing, reads no name and
  calls no function (the \<open>import os\<close>, \<open>import sys\<close> and \<open>sys.path.insert\<close> lines are
  comments).

  Evaluating the module is modelled as state passing over the module namespace: each
  assignment statement maps the namespace to an updated namespace, or to an error.
\<close>

subsection \<open>Values, errors and the namespace\<close>

text \<open>The Python values that occur in the module.\<close>

datatype pyval =
    PyNone
  | PyStr string
  | PyList "pyval list"
  | PyTuple "pyval list"
  | PyDict "(pyval \<times> pyval) list"

text \<open>
  The only exception an expression of this module could raise: a dict display hashes each
  of its keys, and a key that is not hashable raises \<open>TypeError\<close>.
\<close>

datatype error = TypeError

text \<open>
  The module namespace is a Python dict from names to values. It keeps insertion order,
  and assigning to a name that is already bound replaces the value in place; this is an
  association list under \<open>AList.update\<close>. Lookup is \<open>map_of\<close>.
\<close>

type_synonym namespace = "(string \<times> pyval) list"

type_synonym stmt = "namespace \<Rightarrow> error + namespace"

subsection \<open>Expressions and statements\<close>

text \<open>Strings, \<open>None\<close> and tuples of hashable values are hashable; lists and dicts are not.\<close>

fun hashable :: "pyval \<Rightarrow> bool" where
  "hashable PyNone = True"
| "hashable (PyStr s) = True"
| "hashable (PyList xs) = False"
| "hashable (PyTuple xs) = list_all hashable xs"
| "hashable (PyDict kvs) = False"

text \<open>A literal (string, \<open>None\<close>, a list or tuple display of literals) evaluates to its value.\<close>

definition literal :: "pyval \<Rightarrow> error + pyval" where
  "literal v = Inr v"

text \<open>
  A dict display \<open>{k1: v1, ...}\<close> inserts its items from left to right into an empty dict;
  inserting hashes the key.
\<close>

definition dict_display :: "(pyval \<times> pyval) list \<Rightarrow> error + pyval" where
  "dict_display items =
     (if list_all (\<lambda>kv. hashable (fst kv)) items
      then Inr (PyDict (fold (\<lambda>kv. AList.update (fst kv) (snd kv)) items []))
      else Inl TypeError)"

text \<open>
  The assignment statement \<open>name = expression\<close>: an exception raised by the expression
  leaves the statement; otherwise the name is bound in the namespace.
\<close>

definition assign :: "string \<Rightarrow> error + pyval \<Rightarrow> stmt" where
  "assign name e g = (case e of Inl x \<Rightarrow> Inl x | Inr v \<Rightarrow> Inr (AList.update name v g))"

text \<open>A module body runs its statements in order and stops at the first exception.\<close>

fun exec :: "stmt list \<Rightarrow> stmt" where
  "exec [] g = Inr g"
| "exec (s # ss) g = (case s g of Inl x \<Rightarrow> Inl x | Inr g' \<Rightarrow> exec ss g')"

subsection \<open>The module\<close>

text \<open>
  The statements of \<open>src/conf.py\<close>, in source order. The two triple-quoted strings start
  right after the opening quotes, so each begins with a newline, and each ends with the
  newline before the closing quotes.
\<close>

definition conf :: stmt where
  "conf = exec
    [ assign ''project'' (literal (PyStr ''AbyxDev's Blog'')),
      assign ''copyright'' (literal (PyStr ''2022, AbyxDev'')),
      assign ''author'' (literal (PyStr ''AbyxDev'')),
      assign ''extensions'' (literal (PyList
        [ PyStr ''sphinx.ext.intersphinx'',
          PyStr ''sphinxext.opengraph'' ])),
      assign ''intersphinx_mapping'' (dict_display
        [ (PyStr ''python'', PyTuple [PyStr ''https://docs.python.org/3'', PyNone]) ]),
      assign ''templates_path'' (literal (PyList [PyStr ''_templates''])),
      assign ''exclude_patterns'' (literal (PyList
        [ PyStr ''_build'', PyStr ''Thumbs.db'', PyStr ''.DS_Store'', PyStr ''README'' ])),
      assign ''rst_prolog'' (literal (PyStr
        ''\<newline>.. role:: python(code)\<newline>    :language: python\<newline>    :class: highlight\<newline>'')),
      assign ''rst_epilog'' (literal (PyStr
        ''\<newline>\<newline>----\<newline>\<newline>*If you have something to say about this page,\<newline>feel free to* `let me know <https://abyx.dev/contact>`_!\<newline>'')),
      assign ''html_theme'' (literal (PyStr ''furo'')),
      assign ''html_static_path'' (literal (PyList [PyStr ''_static''])),
      assign ''html_title'' (literal (PyStr ''AbyxDev's Blog'')),
      assign ''html_favicon'' (literal (PyStr ''_static/favicon.ico'')),
      assign ''ogp_site_url'' (literal (PyStr ''https://blog.abyx.dev'')),
      assign ''ogp_site_name'' (literal (PyStr ''AbyxDev's Blog'')),
      assign ''ogp_image'' (literal (PyStr ''_static/Abyx.png'')),
      assign ''ogp_image_alt'' (literal (PyStr ''AbyxDev'')),
      assign ''ogp_type'' (literal (PyStr ''article'')) ]"

text \<open>The names the module assigns, in source order.\<close>

definition conf_keys :: "string list" where
  "conf_keys =
    [ ''project'', ''copyright'', ''author'', ''extensions'', ''intersphinx_mapping'',
      ''templates_path'', ''exclude_patterns'', ''rst_prolog'', ''rst_epilog'',
      ''html_theme'', ''html_static_path'', ''html_title'', ''html_favicon'',
      ''ogp_site_url'', ''ogp_site_name'', ''ogp_image'', ''ogp_image_alt'', ''ogp_type'' ]"

section \<open>Running the module\<close>

lemmas conf_unfold = conf_def assign_def literal_def dict_display_def update_conv'

subsection \<open>The effect of a module of assignments on the namespace\<close>

lemma restrict_map_add_dom: "(m ++ c) |` dom c = c"
  by (rule ext) (auto simp: restrict_map_def map_add_def split: option.splits)

lemma restrict_map_add_compl: "(m ++ c) |` (- dom c) = m |` (- dom c)"
  by (rule ext) (auto simp: restrict_map_def map_add_def split: option.splits)

text \<open>
  An assignment whose right-hand side evaluates to a value overrides the namespace with
  one binding that does not depend on the namespace it starts from.
\<close>

lemma assign_binds:
  "\<exists>c. \<forall>g. \<exists>ns. assign k (Inr v) g = Inr ns \<and> map_of ns = map_of g ++ c"
  by (rule exI [of _ "[k \<mapsto> v]"]) (simp add: assign_def update_conv')

text \<open>A sequence of such statements overrides the namespace with their combined bindings.\<close>

lemma exec_binds:
  "list_all (\<lambda>s. \<exists>c. \<forall>g. \<exists>ns. s g = Inr ns \<and> map_of ns = map_of g ++ c) ss
   \<Longrightarrow> \<exists>c. \<forall>g. \<exists>ns. exec ss g = Inr ns \<and> map_of ns = map_of g ++ c"
proof (induction ss)
  case Nil
  have "\<forall>g. \<exists>ns. exec [] g = Inr ns \<and> map_of ns = map_of g ++ Map.empty"
    by simp
  then show ?case by blast
next
  case (Cons s ss)
  from Cons.prems obtain c1
    where s: "\<And>g. \<exists>ns. s g = Inr ns \<and> map_of ns = map_of g ++ c1"
    by auto
  from Cons obtain c2
    where ss: "\<And>g. \<exists>ns. exec ss g = Inr ns \<and> map_of ns = map_of g ++ c2"
    by auto
  have "\<exists>ns. exec (s # ss) g = Inr ns \<and> map_of ns = map_of g ++ (c1 ++ c2)" for g
  proof -
    obtain g' where g': "s g = Inr g'" "map_of g' = map_of g ++ c1"
      using s by blast
    obtain ns where ns: "exec ss g' = Inr ns" "map_of ns = map_of g' ++ c2"
      using ss by blast
    show ?thesis
      using g' ns by simp
  qed
  then show ?case by blast
qed

lemma conf_binds:
  "\<exists>c. \<forall>g. \<exists>ns. conf g = Inr ns \<and> map_of ns = map_of g ++ c"
  unfolding conf_def
  by (rule exec_binds) (simp add: literal_def dict_display_def assign_binds)

lemma conf_dom:
  "\<exists>ns. conf g = Inr ns \<and> dom (map_of ns) = dom (map_of g) \<union> set conf_keys"
  by (simp add: conf_unfold conf_keys_def insert_commute)

section \<open>Properties of the configuration\<close>

text \<open>
  In every theorem \<open>g\<close> is the namespace the module starts from: empty for a plain
  evaluation, or whatever the caller has put there beforehand. The results hold for
  every \<open>g\<close>.
\<close>

subsection \<open>Project metadata\<close>

text \<open>
  C1: evaluating the module binds \<open>project\<close> to the string "AbyxDev's Blog",
  \<open>copyright\<close> to '2022, AbyxDev' and \<open>author\<close> to 'AbyxDev'.
\<close>

theorem conf_project_metadata:
  "\<exists>ns. conf g = Inr ns
      \<and> map_of ns ''project'' = Some (PyStr ''AbyxDev's Blog'')
      \<and> map_of ns ''copyright'' = Some (PyStr ''2022, AbyxDev'')
      \<and> map_of ns ''author'' = Some (PyStr ''AbyxDev'')"
  by (simp add: conf_unfold)

subsection \<open>Extensions\<close>

text \<open>
  C2: after evaluation \<open>extensions\<close> is a list of exactly two strings, in this order:
  'sphinx.ext.intersphinx', then 'sphinxext.opengraph'.
\<close>

theorem conf_extensions:
  "\<exists>ns xs. conf g = Inr ns
      \<and> map_of ns ''extensions'' = Some (PyList xs)
      \<and> length xs = 2
      \<and> xs ! 0 = PyStr ''sphinx.ext.intersphinx''
      \<and> xs ! 1 = PyStr ''sphinxext.opengraph''"
  by (simp add: conf_unfold)

subsection \<open>Totality\<close>

text \<open>
  C3: evaluating the module never raises. From every starting namespace it runs to
  completion and returns a namespace, never an error, and the names bound afterwards are
  the names bound before together with the names the module assigns.
\<close>

theorem conf_total:
  "\<exists>ns. conf g = Inr ns
      \<and> (\<forall>x. conf g \<noteq> Inl x)
      \<and> dom (map_of ns) = dom (map_of g) \<union> set conf_keys"
  by (simp add: conf_unfold conf_keys_def insert_commute)

subsection \<open>Determinism\<close>

text \<open>
  C4: evaluation is deterministic and reads nothing from its environment. Any two
  evaluations, even from different starting namespaces \<open>g1\<close> and \<open>g2\<close>, both complete
  and give identical bindings to every name the module assigns; every other name keeps
  the binding (or absence of one) it had in the starting namespace.
\<close>

theorem conf_deterministic:
  "\<exists>n1 n2. conf g1 = Inr n1 \<and> conf g2 = Inr n2
      \<and> map_of n1 |` set conf_keys = map_of n2 |` set conf_keys
      \<and> map_of n1 |` (- set conf_keys) = map_of g1 |` (- set conf_keys)
      \<and> map_of n2 |` (- set conf_keys) = map_of g2 |` (- set conf_keys)"
proof -
  obtain c where run: "\<And>g. \<exists>ns. conf g = Inr ns \<and> map_of ns = map_of g ++ c"
    using conf_binds by blast
  have dom_c: "dom c = set conf_keys"
  proof -
    obtain n0 where n0: "conf [] = Inr n0" "map_of n0 = map_of [] ++ c"
      using run by blast
    obtain n0' where n0': "conf [] = Inr n0'" "dom (map_of n0') = set conf_keys"
      using conf_dom [of "[]"] by auto
    from n0 n0' have "n0' = n0" "map_of n0 = c" by simp_all
    with n0'(2) show ?thesis by simp
  qed
  obtain n1 where n1: "conf g1 = Inr n1" "map_of n1 = map_of g1 ++ c"
    using run by blast
  obtain n2 where n2: "conf g2 = Inr n2" "map_of n2 = map_of g2 ++ c"
    using run by blast
  have "map_of n1 |` dom c = map_of n2 |` dom c"
    by (simp only: n1 n2 restrict_map_add_dom)
  moreover have "map_of n1 |` (- dom c) = map_of g1 |` (- dom c)"
    by (simp only: n1 restrict_map_add_compl)
  moreover have "map_of n2 |` (- dom c) = map_of g2 |` (- dom c)"
    by (simp only: n2 restrict_map_add_compl)
  ultimately show ?thesis
    using n1(1) n2(1) unfolding dom_c by blast
qed

subsection \<open>Theme\<close>

text \<open>C5: after evaluation \<open>html_theme\<close> is bound to the string 'furo'.\<close>

theorem conf_html_theme:
  "\<exists>ns. conf g = Inr ns \<and> map_of ns ''html_theme'' = Some (PyStr ''furo'')"
  by (simp add: conf_unfold)

subsection \<open>Template and static paths\<close>

text \<open>
  C6: after evaluation \<open>templates_path\<close> is the one-element list ['_templates'],
  \<open>html_static_path\<close> is the one-element list ['_static'], and \<open>html_favicon\<close> is the
  string '_static/favicon.ico'.
\<close>

theorem conf_paths:
  "\<exists>ns. conf g = Inr ns
      \<and> map_of ns ''templates_path'' = Some (PyList [PyStr ''_templates''])
      \<and> map_of ns ''html_static_path'' = Some (PyList [PyStr ''_static''])
      \<and> map_of ns ''html_favicon'' = Some (PyStr ''_static/favicon.ico'')"
  by (simp add: conf_unfold)

subsection \<open>Prologue and epilogue\<close>

text \<open>
  C7: after evaluation \<open>rst_prolog\<close> is exactly the text that defines the \<open>python\<close> code
  role (a leading newline, the role directive and its two indented options, each line
  ended by a newline), and \<open>rst_epilog\<close> is exactly the text with the \<open>----\<close> transition
  on a line of its own followed by the feedback sentence, which links to
  \<open>https://abyx.dev/contact\<close>.
\<close>

theorem conf_rst_prolog_epilog:
  "\<exists>ns p e. conf g = Inr ns
      \<and> map_of ns ''rst_prolog'' = Some (PyStr p)
      \<and> p = ''\<newline>.. role:: python(code)\<newline>    :language: python\<newline>    :class: highlight\<newline>''
      \<and> map_of ns ''rst_epilog'' = Some (PyStr e)
      \<and> e = ''\<newline>\<newline>----\<newline>\<newline>*If you have something to say about this page,\<newline>feel free to* `let me know <https://abyx.dev/contact>`_!\<newline>''
      \<and> sublist ''.. role:: python(code)'' p
      \<and> sublist ''\<newline>----\<newline>'' e
      \<and> sublist ''<https://abyx.dev/contact>'' e"
  by (simp add: conf_unfold sublist_code)

subsection \<open>Intersphinx, excluded patterns and OpenGraph\<close>

text \<open>
  C8: after evaluation \<open>intersphinx_mapping\<close> is a dict with the single key 'python',
  mapped to the pair ('https://docs.python.org/3', None); \<open>exclude_patterns\<close> is
  ['_build', 'Thumbs.db', '.DS_Store', 'README']; and the OpenGraph names are
  \<open>ogp_site_url\<close> = 'https://blog.abyx.dev', \<open>ogp_site_name\<close> = "AbyxDev's Blog",
  \<open>ogp_image\<close> = '_static/Abyx.png', \<open>ogp_image_alt\<close> = 'AbyxDev' and
  \<open>ogp_type\<close> = 'article'.
\<close>

theorem conf_remaining_keys:
  "\<exists>ns. conf g = Inr ns
      \<and> map_of ns ''intersphinx_mapping''
          = Some (PyDict [(PyStr ''python'',
                           PyTuple [PyStr ''https://docs.python.org/3'', PyNone])])
      \<and> map_of ns ''exclude_patterns''
          = Some (PyList [PyStr ''_build'', PyStr ''Thumbs.db'',
                          PyStr ''.DS_Store'', PyStr ''README''])
      \<and> map_of ns ''ogp_site_url'' = Some (PyStr ''https://blog.abyx.dev'')
      \<and> map_of ns ''ogp_site_name'' = Some (PyStr ''AbyxDev's Blog'')
      \<and> map_of ns ''ogp_image'' = Some (PyStr ''_static/Abyx.png'')
      \<and> map_of ns ''ogp_image_alt'' = Some (PyStr ''AbyxDev'')
      \<and> map_of ns ''ogp_type'' = Some (PyStr ''article'')"
  by (simp add: conf_unfold)

subsection \<open>One site name\<close>

text \<open>
  C9: in the namespace produced by evaluation, \<open>project\<close>, \<open>html_title\<close> and
  \<open>ogp_site_name\<close> are bound to one and the same value, the string "AbyxDev's Blog".
\<close>

theorem conf_site_name_consistent:
  "\<exists>ns v. conf g = Inr ns
      \<and> map_of ns ''project'' = Some v
      \<and> map_of ns ''html_title'' = Some v
      \<and> map_of ns ''ogp_site_name'' = Some v
      \<and> v = PyStr ''AbyxDev's Blog''"
  by (simp add: conf_unfold)

subsection \<open>Assets lie under the static directory\<close>

text \<open>
  C10: \<open>html_static_path\<close> lists a single directory \<open>d\<close> = '_static', and both asset
  paths of the configuration, \<open>html_favicon\<close> = '_static/favicon.ico' and
  \<open>ogp_image\<close> = '_static/Abyx.png', begin with \<open>d\<close> followed by '/'.
\<close>

theorem conf_asset_paths_under_static:
  "\<exists>ns d f i. conf g = Inr ns
      \<and> map_of ns ''html_static_path'' = Some (PyList [PyStr d])
      \<and> map_of ns ''html_favicon'' = Some (PyStr f)
      \<and> map_of ns ''ogp_image'' = Some (PyStr i)
      \<and> d = ''_static'' \<and> f = ''_static/favicon.ico'' \<and> i = ''_static/Abyx.png''
      \<and> prefix (d @ ''/'') f \<and> prefix (d @ ''/'') i"
  by (simp add: conf_unfold)

end
